theory Spec2Isabelle
  imports Main
begin

section \<open>The record access layer of WhatsUpKent (pkg/db/operations.go)\<close>

text \<open>
  The file \<^verbatim>\<open>pkg/db/operations.go\<close> holds the lookups and upserts of the three record
  kinds (scrape, event, location) and one count query. Every function makes at most one
  call to the graph store through the client \<^verbatim>\<open>c\<close>. The store, the JSON encoder and
  the JSON decoder are libraries; they appear here as follows.
  \<^item> The store is a state of any type \<open>'s\<close>; the client carries the store's answer to
    a query (which reads the state) and to a mutation (which may change it).
  \<^item> Every call made on a transaction is appended to a log, so that what an operation
    sent to the store can be stated.
  \<^item> A Go result \<^verbatim>\<open>(*T, error)\<close> is \<open>Return p e\<close> with both parts optional
    (\<open>None\<close> is \<^verbatim>\<open>nil\<close>); a run-time panic is the separate outcome \<open>Panic\<close>.
\<close>

subsection \<open>Errors and results\<close>

datatype error =
    ErrAborted                \<comment> \<open>\<^verbatim>\<open>y.ErrAborted\<close>, the store's transaction-abort error\<close>
  | ErrReadOnly               \<comment> \<open>a mutation on a read-only transaction\<close>
  | StoreError string         \<comment> \<open>any other error answered by the store\<close>
  | SyntaxError               \<comment> \<open>\<^verbatim>\<open>json.SyntaxError\<close>: the bytes are not JSON\<close>
  | UnmarshalTypeError        \<comment> \<open>\<^verbatim>\<open>json.UnmarshalTypeError\<close>: a value of the wrong JSON type\<close>
  | MarshalError string       \<comment> \<open>an error of \<^verbatim>\<open>json.Marshal\<close>\<close>
  | Errorf string             \<comment> \<open>\<^verbatim>\<open>fmt.Errorf\<close> with the formatted message\<close>

datatype panic = IndexOutOfRange nat nat

datatype 'a result = Return "'a option" "error option" | Panic panic

subsection \<open>JSON values and byte payloads\<close>

datatype json =
    JNull
  | JBool bool
  | JInt int                  \<comment> \<open>a number literal without fraction and exponent\<close>
  | JFloat string             \<comment> \<open>any other number literal, as written\<close>
  | JString string
  | JArray "json list"
  | JObject "(string \<times> json) list"

text \<open>A byte slice handed to or received from the JSON library: either it is not
  well-formed JSON, or it is the text of one JSON value.\<close>

datatype bytes = Malformed | Wellformed json

text \<open>The empty slice (\<^verbatim>\<open>nil\<close>) is not JSON text, so it is \<open>Malformed\<close>.\<close>

subsection \<open>The store client\<close>

datatype txn = ReadOnlyTxn | ReadWriteTxn

record mutation =
  SetJson :: bytes
  CommitNow :: bool

record response =
  Json :: bytes
  Uids :: "(string \<times> string) list"

datatype call =
    CallQuery txn string "string \<rightharpoonup> string"
  | CallMutate txn mutation

record 's dgraph =
  runQuery :: "'s \<Rightarrow> string \<Rightarrow> (string \<rightharpoonup> string) \<Rightarrow> error + response"
  runMutate :: "'s \<Rightarrow> mutation \<Rightarrow> (error + response) \<times> 's"

record 's world =
  store :: 's
  calls :: "call list"

definition NewReadOnlyTxn :: "'s dgraph \<Rightarrow> txn" where
  "NewReadOnlyTxn c = ReadOnlyTxn"

definition NewTxn :: "'s dgraph \<Rightarrow> txn" where
  "NewTxn c = ReadWriteTxn"

definition QueryWithVars ::
  "'s dgraph \<Rightarrow> txn \<Rightarrow> string \<Rightarrow> (string \<rightharpoonup> string) \<Rightarrow> 's world
     \<Rightarrow> (error + response) \<times> 's world" where
  "QueryWithVars c t q vars w =
     (runQuery c (store w) q vars, w\<lparr>calls := calls w @ [CallQuery t q vars]\<rparr>)"

text \<open>\<^verbatim>\<open>txn.Query(ctx, q)\<close> is \<^verbatim>\<open>txn.QueryWithVars(ctx, q, nil)\<close>.\<close>

definition Query ::
  "'s dgraph \<Rightarrow> txn \<Rightarrow> string \<Rightarrow> 's world \<Rightarrow> (error + response) \<times> 's world" where
  "Query c t q w = QueryWithVars c t q Map.empty w"

definition Mutate ::
  "'s dgraph \<Rightarrow> txn \<Rightarrow> mutation \<Rightarrow> 's world \<Rightarrow> (error + response) \<times> 's world" where
  "Mutate c t mu w =
     (case t of
        ReadOnlyTxn \<Rightarrow> (Inl ErrReadOnly, w)
      | ReadWriteTxn \<Rightarrow>
          (case runMutate c (store w) mu of
             (r, s') \<Rightarrow> (r, \<lparr>store = s', calls = calls w @ [CallMutate t mu]\<rparr>)))"

subsection \<open>Decoding the result envelope\<close>

text \<open>
  Each lookup declares a local struct \<^verbatim>\<open>Root\<close> with one slice field tagged with the
  envelope key and calls \<^verbatim>\<open>json.Unmarshal(resp.Json, &r)\<close>. The decoder of
  \<^verbatim>\<open>encoding/json\<close> behaves as follows on that shape:
  \<^item> bytes that are not JSON give a syntax error;
  \<^item> a top-level \<^verbatim>\<open>null\<close> leaves \<^verbatim>\<open>r\<close> untouched; any other top-level value that is
    not an object is a type error;
  \<^item> the members of an object are visited in order; a member whose key is the field's
    name, compared without regard to letter case, is decoded into the field, any other
    member is skipped, so a missing key leaves the slice \<^verbatim>\<open>nil\<close>;
  \<^item> \<^verbatim>\<open>null\<close> sets the slice to \<^verbatim>\<open>nil\<close>, an array is decoded element by element
    into a fresh slice, any other value is a type error;
  \<^item> a type error does not stop the decoding, and the first one is returned at the end.
  The callers drop \<^verbatim>\<open>r\<close> when the error is not \<^verbatim>\<open>nil\<close>, so the model returns either
  the error or the decoded slice. Two limits of the model: keys are compared as ASCII
  text, and when an object repeats the envelope key, the later array is decoded into
  fresh elements (the library may reuse the elements of the earlier one). The answers
  of the store do not repeat keys.
\<close>

definition toLower :: "char \<Rightarrow> char" where
  "toLower ch =
     (case map_of (zip ''ABCDEFGHIJKLMNOPQRSTUVWXYZ'' ''abcdefghijklmnopqrstuvwxyz'') ch of
        Some l \<Rightarrow> l
      | None \<Rightarrow> ch)"

definition equalFold :: "string \<Rightarrow> string \<Rightarrow> bool" where
  "equalFold a b = (map toLower a = map toLower b)"

definition saveError :: "error option \<Rightarrow> error \<Rightarrow> error option" where
  "saveError saved e = (case saved of None \<Rightarrow> Some e | Some e0 \<Rightarrow> Some e0)"

fun decodeElems ::
  "(json \<Rightarrow> error + 'a) \<Rightarrow> json list \<Rightarrow> 'a list \<times> error option \<Rightarrow> 'a list \<times> error option" where
  "decodeElems dec [] acc = acc"
| "decodeElems dec (j # js) (xs, saved) =
     (case dec j of
        Inl e \<Rightarrow> decodeElems dec js (xs, saveError saved e)
      | Inr x \<Rightarrow> decodeElems dec js (xs @ [x], saved))"

definition decodeSlice ::
  "(json \<Rightarrow> error + 'a) \<Rightarrow> json \<Rightarrow> 'a list \<times> error option \<Rightarrow> 'a list \<times> error option" where
  "decodeSlice dec j st =
     (case j of
        JNull \<Rightarrow> ([], snd st)
      | JArray js \<Rightarrow> decodeElems dec js ([], snd st)
      | _ \<Rightarrow> (fst st, saveError (snd st) UnmarshalTypeError))"

fun decodeMembers ::
  "string \<Rightarrow> (json \<Rightarrow> error + 'a) \<Rightarrow> (string \<times> json) list \<Rightarrow> 'a list \<times> error option
     \<Rightarrow> 'a list \<times> error option" where
  "decodeMembers key dec [] st = st"
| "decodeMembers key dec ((k, v) # kvs) st =
     (if equalFold key k
      then decodeMembers key dec kvs (decodeSlice dec v st)
      else decodeMembers key dec kvs st)"

definition unmarshalRoot :: "string \<Rightarrow> (json \<Rightarrow> error + 'a) \<Rightarrow> bytes \<Rightarrow> error + 'a list" where
  "unmarshalRoot key dec b =
     (case b of
        Malformed \<Rightarrow> Inl SyntaxError
      | Wellformed JNull \<Rightarrow> Inr []
      | Wellformed (JObject kvs) \<Rightarrow>
          (case decodeMembers key dec kvs ([], None) of
             (xs, None) \<Rightarrow> Inr xs
           | (xs, Some e) \<Rightarrow> Inl e)
      | Wellformed _ \<Rightarrow> Inl UnmarshalTypeError)"

text \<open>The element type of the count envelope is declared in the source:
  \<^verbatim>\<open>struct { NodeCount int `json:"nodeCount"` }\<close>. A \<^verbatim>\<open>null\<close> element or member leaves
  the zero value; the number must be an integer literal in the range of a 64-bit
  \<^verbatim>\<open>int\<close>.\<close>

definition decodeInt :: "json \<Rightarrow> int \<times> error option \<Rightarrow> int \<times> error option" where
  "decodeInt j st =
     (case j of
        JNull \<Rightarrow> st
      | JInt n \<Rightarrow>
          (if - (2 ^ 63) \<le> n \<and> n < 2 ^ 63 then (n, snd st)
           else (fst st, saveError (snd st) UnmarshalTypeError))
      | _ \<Rightarrow> (fst st, saveError (snd st) UnmarshalTypeError))"

fun decodeIntMembers ::
  "string \<Rightarrow> (string \<times> json) list \<Rightarrow> int \<times> error option \<Rightarrow> int \<times> error option" where
  "decodeIntMembers key [] st = st"
| "decodeIntMembers key ((k, v) # kvs) st =
     (if equalFold key k
      then decodeIntMembers key kvs (decodeInt v st)
      else decodeIntMembers key kvs st)"

definition decodeNodeCount :: "json \<Rightarrow> error + int" where
  "decodeNodeCount j =
     (case j of
        JNull \<Rightarrow> Inr 0
      | JObject kvs \<Rightarrow>
          (case decodeIntMembers ''nodeCount'' kvs (0, None) of
             (n, None) \<Rightarrow> Inr n
           | (n, Some e) \<Rightarrow> Inl e)
      | _ \<Rightarrow> Inl UnmarshalTypeError)"

subsection \<open>Query texts\<close>

text \<open>The queries are raw string literals; their line breaks and tabs belong to the
  text sent to the store. \<open>ln n s\<close> is the line \<open>s\<close> behind \<open>n\<close> tabs.\<close>

definition tab :: char where
  "tab = CHR 0x09"

definition newline :: char where
  "newline = CHR 0x0A"

definition ln :: "nat \<Rightarrow> string \<Rightarrow> string" where
  "ln n s = replicate n tab @ s @ [newline]"

definition qCount :: string where
  "qCount =
     ln 0 ''query Count {'' @
     ln 3 ''nodeCount(func: has(location.id)) {'' @
     ln 4 ''nodeCount: count(uid)'' @
     ln 3 ''}'' @
     ln 2 ''}'' @
     replicate 2 tab"

subsection \<open>CountNodesWithField\<close>

definition CountNodesWithField ::
  "'s dgraph \<Rightarrow> string \<Rightarrow> 's world \<Rightarrow> int result \<times> 's world" where
  "CountNodesWithField c f w =
     (let txn = NewReadOnlyTxn c;
          q = qCount
      in case Query c txn q w of
           (Inl err, w') \<Rightarrow> (Return None (Some err), w')
         | (Inr resp, w') \<Rightarrow>
             (case unmarshalRoot ''nodeCount'' decodeNodeCount (Json resp) of
                Inl err \<Rightarrow> (Return None (Some err), w')
              | Inr r \<Rightarrow>
                  (if 0 < length r then (Return (Some (r ! 0)) None, w')
                   else (Panic (IndexOutOfRange 0 (length r)), w'))))"

subsection \<open>Record types\<close>

text \<open>Modelled from the spec: the declarations of the structs \<^verbatim>\<open>Scrape\<close>,
  \<^verbatim>\<open>Event\<close> and \<^verbatim>\<open>Location\<close> (and of the \<^verbatim>\<open>Person\<close> and \<^verbatim>\<open>Module\<close> they
  refer to) are not in the files at hand. The operations read \<^verbatim>\<open>scrape.UID\<close> (a
  string), \<^verbatim>\<open>scrape.ID\<close> (an \<^verbatim>\<open>int\<close>), \<^verbatim>\<open>event.UID\<close> and \<^verbatim>\<open>event.ID\<close> (strings);
  the other fields follow the data model of the specification and the projections of
  the queries. A timestamp is kept as its text. How the JSON library encodes and
  decodes these structs depends on the missing declarations, so the encoder and the
  element decoder of each record type are parameters of the operations.\<close>

type_synonym timestamp = string

record Person =
  Person_UID :: string
  Person_Name :: string

record Module =
  Module_UID :: string
  Module_Code :: string

record Location =
  Location_UID :: string
  Location_ID :: string
  Location_Name :: string
  Location_DisabledAccess :: bool

record Event =
  Event_UID :: string
  Event_ID :: string
  Event_Title :: string
  Event_Description :: string
  Event_StartDate :: timestamp
  Event_EndDate :: timestamp
  Event_Organiser :: "Person list"
  Event_PartOfModule :: "Module list"
  Event_Location :: "Location list"

record Scrape =
  Scrape_UID :: string
  Scrape_ID :: int
  Scrape_LastScraped :: timestamp
  Scrape_FoundEvent :: "Event list"

subsection \<open>Formatting\<close>

text \<open>\<^verbatim>\<open>strconv.Itoa\<close>: the decimal text of an \<^verbatim>\<open>int\<close>, with a minus sign for a
  negative number.\<close>

fun digits :: "nat \<Rightarrow> string" where
  "digits n =
     (if n < 10 then [''0123456789'' ! n]
      else digits (n div 10) @ [''0123456789'' ! (n mod 10)])"

definition Itoa :: "int \<Rightarrow> string" where
  "Itoa i = (if i < 0 then CHR ''-'' # digits (nat (- i)) else digits (nat i))"

subsection \<open>The lookup queries\<close>

definition scrapeFields :: string where
  "scrapeFields =
     ln 4 ''uid'' @
     ln 4 ''scrape.id'' @
     ln 4 ''scrape.last_scraped'' @
     ln 4 ''scrape.found_event {'' @
     ln 5 ''uid'' @
     ln 5 ''event.id'' @
     ln 5 ''event.title'' @
     ln 4 ''}''"

definition qFindScrape :: string where
  "qFindScrape =
     ln 0 ''query FindScrape($uid: string) {'' @
     ln 3 ''findScrape(func: uid($uid)) {'' @
     scrapeFields @
     ln 3 ''}'' @
     ln 2 ''}'' @
     replicate 1 tab"

definition qFindScrapeNoID :: string where
  "qFindScrapeNoID =
     ln 0 ''query FindScrapeNoID($id: int) {'' @
     ln 3 ''findScrapeNoID(func: eq(scrape.id, $id)) {'' @
     scrapeFields @
     ln 3 ''}'' @
     ln 2 ''}'' @
     replicate 1 tab"

definition eventFields :: string where
  "eventFields =
     ln 4 ''uid'' @
     ln 4 ''event.id'' @
     ln 4 ''event.title'' @
     ln 4 ''event.description'' @
     ln 4 ''event.start_date'' @
     ln 4 ''event.end_date'' @
     ln 4 ''event.organiser {'' @
     ln 5 ''uid'' @
     ln 5 ''person.name'' @
     ln 4 ''}'' @
     ln 4 ''event.part_of_module {'' @
     ln 5 ''uid'' @
     ln 5 ''module.code'' @
     ln 4 ''}'' @
     ln 4 ''event.location {'' @
     ln 5 ''uid'' @
     ln 5 ''location.id'' @
     ln 5 ''location.name'' @
     ln 4 ''}''"

definition qFindEvent :: string where
  "qFindEvent =
     ln 0 ''query FindEvent($id: string) {'' @
     ln 3 ''findEvent(func: uid($id)) {'' @
     eventFields @
     ln 3 ''}'' @
     ln 2 ''}'' @
     replicate 1 tab"

definition qFindEventNoUID :: string where
  "qFindEventNoUID =
     ln 0 ''query FindEventNoUID($id: string) {'' @
     ln 3 ''findEvent(func: eq(event.id, $id)) {'' @
     eventFields @
     ln 3 ''}'' @
     ln 2 ''}'' @
     replicate 1 tab"

definition qFindLocationFromSlug :: string where
  "qFindLocationFromSlug =
     ln 0 ''query FindLocationFromSlug($id: string) {'' @
     ln 3 ''findLocation(func: eq(location.id, $id)) {'' @
     ln 4 ''uid'' @
     ln 4 ''location.id'' @
     ln 4 ''location.name'' @
     ln 4 ''location.disabled_access'' @
     ln 3 ''}'' @
     ln 2 ''}'' @
     replicate 1 tab"

subsection \<open>Scrapes\<close>

text \<open>In every operation below the first parameter is the client, as in the source;
  the second is the decoder (for a lookup) or the encoder (for an upsert) that the JSON
  library derives from the record type.\<close>

definition getScrapeWithID ::
  "'s dgraph \<Rightarrow> (json \<Rightarrow> error + Scrape) \<Rightarrow> Scrape \<Rightarrow> 's world \<Rightarrow> Scrape result \<times> 's world" where
  "getScrapeWithID c dec scrape w =
     (let txn = NewReadOnlyTxn c;
          q = qFindScrape;
          variables = Map.empty(''$uid'' \<mapsto> Scrape_UID scrape)
      in case QueryWithVars c txn q variables w of
           (Inl err, w') \<Rightarrow> (Return None (Some err), w')
         | (Inr resp, w') \<Rightarrow>
             (case unmarshalRoot ''findScrape'' dec (Json resp) of
                Inl err \<Rightarrow> (Return None (Some err), w')
              | Inr r \<Rightarrow>
                  (if length r = 0
                   then (Return None (Some (Errorf (''No Scrape found with id '' @ Scrape_UID scrape))), w')
                   else (Return (Some (r ! 0)) None, w'))))"

definition getScrapeWithoutID ::
  "'s dgraph \<Rightarrow> (json \<Rightarrow> error + Scrape) \<Rightarrow> Scrape \<Rightarrow> 's world \<Rightarrow> Scrape result \<times> 's world" where
  "getScrapeWithoutID c dec scrape w =
     (let txn = NewReadOnlyTxn c;
          q = qFindScrapeNoID;
          variables = Map.empty(''$id'' \<mapsto> Itoa (Scrape_ID scrape))
      in case QueryWithVars c txn q variables w of
           (Inl err, w') \<Rightarrow> (Return None (Some err), w')
         | (Inr resp, w') \<Rightarrow>
             (case unmarshalRoot ''findScrapeNoID'' dec (Json resp) of
                Inl err \<Rightarrow> (Return None (Some err), w')
              | Inr r \<Rightarrow>
                  (if length r = 0
                   then (Return None None, w')
                   else (Return (Some (r ! 0)) None, w'))))"

definition GetScrape ::
  "'s dgraph \<Rightarrow> (json \<Rightarrow> error + Scrape) \<Rightarrow> Scrape \<Rightarrow> 's world \<Rightarrow> Scrape result \<times> 's world" where
  "GetScrape c dec scrape w =
     (if Scrape_UID scrape \<noteq> '''' then getScrapeWithID c dec scrape w
      else getScrapeWithoutID c dec scrape w)"

definition UpsertScrape ::
  "'s dgraph \<Rightarrow> (Scrape \<Rightarrow> error + bytes) \<Rightarrow> Scrape \<Rightarrow> 's world \<Rightarrow> response result \<times> 's world" where
  "UpsertScrape c marshal scrape w =
     (let mu = \<lparr>SetJson = Malformed, CommitNow = True\<rparr>
      in case marshal scrape of
           Inl err \<Rightarrow> (Return None (Some err), w)
         | Inr pb \<Rightarrow>
             (let mu = mu\<lparr>SetJson := pb\<rparr>
              in case Mutate c (NewTxn c) mu w of
                   (Inl err, w') \<Rightarrow> (Return None (Some err), w')
                 | (Inr assigned, w') \<Rightarrow> (Return (Some assigned) None, w')))"

subsection \<open>Events\<close>

definition getEventWithUID ::
  "'s dgraph \<Rightarrow> (json \<Rightarrow> error + Event) \<Rightarrow> Event \<Rightarrow> 's world \<Rightarrow> Event result \<times> 's world" where
  "getEventWithUID c dec event w =
     (let txn = NewReadOnlyTxn c;
          q = qFindEvent;
          variables = Map.empty(''$id'' \<mapsto> Event_UID event)
      in case QueryWithVars c txn q variables w of
           (Inl err, w') \<Rightarrow> (Return None (Some err), w')
         | (Inr resp, w') \<Rightarrow>
             (case unmarshalRoot ''findEvent'' dec (Json resp) of
                Inl err \<Rightarrow> (Return None (Some err), w')
              | Inr r \<Rightarrow>
                  (if length r = 0
                   then (Return None (Some (Errorf (''No Event found with uid '' @ Event_UID event))), w')
                   else (Return (Some (r ! 0)) None, w'))))"

definition getEventWithoutUID ::
  "'s dgraph \<Rightarrow> (json \<Rightarrow> error + Event) \<Rightarrow> Event \<Rightarrow> 's world \<Rightarrow> Event result \<times> 's world" where
  "getEventWithoutUID c dec event w =
     (let txn = NewReadOnlyTxn c;
          q = qFindEventNoUID;
          variables = Map.empty(''$id'' \<mapsto> Event_ID event)
      in case QueryWithVars c txn q variables w of
           (Inl err, w') \<Rightarrow> (Return None (Some err), w')
         | (Inr resp, w') \<Rightarrow>
             (case unmarshalRoot ''findEvent'' dec (Json resp) of
                Inl err \<Rightarrow> (Return None (Some err), w')
              | Inr r \<Rightarrow>
                  (if length r = 0
                   then (Return None None, w')
                   else (Return (Some (r ! 0)) None, w'))))"

definition GetEvent ::
  "'s dgraph \<Rightarrow> (json \<Rightarrow> error + Event) \<Rightarrow> Event \<Rightarrow> 's world \<Rightarrow> Event result \<times> 's world" where
  "GetEvent c dec event w =
     (if Event_UID event \<noteq> '''' then getEventWithUID c dec event w
      else getEventWithoutUID c dec event w)"

text \<open>\<^verbatim>\<open>UpsertEvent\<close> compares the error of the mutation with \<^verbatim>\<open>y.ErrAborted\<close>; the
  body of that \<^verbatim>\<open>if\<close> is empty.\<close>

definition UpsertEvent ::
  "'s dgraph \<Rightarrow> (Event \<Rightarrow> error + bytes) \<Rightarrow> Event \<Rightarrow> 's world \<Rightarrow> response result \<times> 's world" where
  "UpsertEvent c marshal event w =
     (let mu = \<lparr>SetJson = Malformed, CommitNow = True\<rparr>
      in case marshal event of
           Inl err \<Rightarrow> (Return None (Some err), w)
         | Inr pb \<Rightarrow>
             (let mu = mu\<lparr>SetJson := pb\<rparr>
              in case Mutate c (NewTxn c) mu w of
                   (Inl err, w') \<Rightarrow>
                       (let _ = (if err = ErrAborted then () else ())
                        in (Return None (Some err), w'))
                 | (Inr assigned, w') \<Rightarrow> (Return (Some assigned) None, w')))"

subsection \<open>Locations\<close>

definition GetLocationFromKentSlug ::
  "'s dgraph \<Rightarrow> (json \<Rightarrow> error + Location) \<Rightarrow> string \<Rightarrow> 's world \<Rightarrow> Location result \<times> 's world" where
  "GetLocationFromKentSlug c dec slug w =
     (let txn = NewReadOnlyTxn c;
          q = qFindLocationFromSlug;
          variables = Map.empty(''$id'' \<mapsto> slug)
      in case QueryWithVars c txn q variables w of
           (Inl err, w') \<Rightarrow> (Return None (Some err), w')
         | (Inr resp, w') \<Rightarrow>
             (case unmarshalRoot ''findLocation'' dec (Json resp) of
                Inl err \<Rightarrow> (Return None (Some err), w')
              | Inr r \<Rightarrow>
                  (if length r = 0
                   then (Return None None, w')
                   else (Return (Some (r ! 0)) None, w'))))"

definition UpsertLocation ::
  "'s dgraph \<Rightarrow> (Location \<Rightarrow> error + bytes) \<Rightarrow> Location \<Rightarrow> 's world \<Rightarrow> response result \<times> 's world" where
  "UpsertLocation c marshal loc w =
     (let mu = \<lparr>SetJson = Malformed, CommitNow = True\<rparr>
      in case marshal loc of
           Inl err \<Rightarrow> (Return None (Some err), w)
         | Inr pb \<Rightarrow>
             (let mu = mu\<lparr>SetJson := pb\<rparr>
              in case Mutate c (NewTxn c) mu w of
                   (Inl err, w') \<Rightarrow> (Return None (Some err), w')
                 | (Inr assigned, w') \<Rightarrow> (Return (Some assigned) None, w')))"

subsection \<open>Concrete stores, decoders and encoders\<close>

text \<open>The definitions of this subsection are not part of the program: they are the
  concrete clients, decoders and encoders at which the theorems below are instantiated.\<close>

text \<open>A client with fixed answers: \<open>qa\<close> to every query, \<open>ma\<close> to every mutation. The
  state counts the mutations received.\<close>

definition cannedClient :: "error + response \<Rightarrow> error + response \<Rightarrow> nat dgraph" where
  "cannedClient qa ma =
     \<lparr>runQuery = (\<lambda>s q vars. qa), runMutate = (\<lambda>s mu. (ma, Suc s))\<rparr>"

definition envelope :: "string \<Rightarrow> json list \<Rightarrow> response" where
  "envelope key xs = \<lparr>Json = Wellformed (JObject [(key, JArray xs)]), Uids = []\<rparr>"

definition twoRecords :: "string \<Rightarrow> response" where
  "twoRecords key =
     envelope key [JObject [(''uid'', JString ''0x2a'')], JObject [(''uid'', JString ''0x2b'')]]"

definition emptyObject :: response where
  "emptyObject = \<lparr>Json = Wellformed (JObject []), Uids = []\<rparr>"

text \<open>The answer to a mutation that created one node.\<close>

definition assignedOne :: response where
  "assignedOne = \<lparr>Json = Malformed, Uids = [(''blank-0'', ''0x2c'')]\<rparr>"

definition freshWorld :: "'s \<Rightarrow> 's world" where
  "freshWorld s = \<lparr>store = s, calls = []\<rparr>"

text \<open>A store whose state is the list of its nodes, each node being the list of the
  field names it has. It answers the count query of the source by counting the nodes
  that have the field \<^verbatim>\<open>location.id\<close>, as the text of that query asks, and knows no
  other query.\<close>

definition countHaving :: "string \<Rightarrow> string list list \<Rightarrow> int" where
  "countHaving f nodes = int (length (filter (\<lambda>n. f \<in> set n) nodes))"

definition nodeStore :: "string list list dgraph" where
  "nodeStore =
     \<lparr>runQuery = (\<lambda>s q vars.
        if q = qCount
        then Inr (envelope ''nodeCount''
               [JObject [(''nodeCount'', JInt (countHaving ''location.id'' s))]])
        else Inl (StoreError ''unknown query'')),
      runMutate = (\<lambda>s mu. (Inl (StoreError ''no mutations''), s))\<rparr>"

definition threeNodes :: "string list list" where
  "threeNodes = [[''location.id'', ''location.name''], [''location.id''], [''event.id'']]"

text \<open>Decoders that read the member \<^verbatim>\<open>uid\<close> of an object and leave the other fields
  at their zero values.\<close>

definition uidOf :: "json \<Rightarrow> error + string" where
  "uidOf j =
     (case j of
        JObject kvs \<Rightarrow>
          (case map_of kvs ''uid'' of
             Some (JString u) \<Rightarrow> Inr u
           | Some _ \<Rightarrow> Inl UnmarshalTypeError
           | None \<Rightarrow> Inr '''')
      | JNull \<Rightarrow> Inr ''''
      | _ \<Rightarrow> Inl UnmarshalTypeError)"

definition scrapeWithUID :: "string \<Rightarrow> Scrape" where
  "scrapeWithUID u =
     \<lparr>Scrape_UID = u, Scrape_ID = 0, Scrape_LastScraped = '''', Scrape_FoundEvent = []\<rparr>"

definition eventWithUID :: "string \<Rightarrow> Event" where
  "eventWithUID u =
     \<lparr>Event_UID = u, Event_ID = '''', Event_Title = '''', Event_Description = '''',
      Event_StartDate = '''', Event_EndDate = '''', Event_Organiser = [],
      Event_PartOfModule = [], Event_Location = []\<rparr>"

definition locationWithUID :: "string \<Rightarrow> Location" where
  "locationWithUID u =
     \<lparr>Location_UID = u, Location_ID = '''', Location_Name = '''',
      Location_DisabledAccess = False\<rparr>"

definition decodeScrapeUID :: "json \<Rightarrow> error + Scrape" where
  "decodeScrapeUID j = (case uidOf j of Inl e \<Rightarrow> Inl e | Inr u \<Rightarrow> Inr (scrapeWithUID u))"

definition decodeEventUID :: "json \<Rightarrow> error + Event" where
  "decodeEventUID j = (case uidOf j of Inl e \<Rightarrow> Inl e | Inr u \<Rightarrow> Inr (eventWithUID u))"

definition decodeLocationUID :: "json \<Rightarrow> error + Location" where
  "decodeLocationUID j = (case uidOf j of Inl e \<Rightarrow> Inl e | Inr u \<Rightarrow> Inr (locationWithUID u))"

text \<open>Encoders that write the identity fields and leave out an empty external id, and
  one that always fails.\<close>

definition marshalScrapeIDs :: "Scrape \<Rightarrow> error + bytes" where
  "marshalScrapeIDs s =
     Inr (Wellformed (JObject
       ((''uid'', JString (Scrape_UID s)) #
        (if Scrape_ID s = 0 then [] else [(''scrape.id'', JInt (Scrape_ID s))]))))"

definition marshalEventIDs :: "Event \<Rightarrow> error + bytes" where
  "marshalEventIDs e =
     Inr (Wellformed (JObject
       ((''uid'', JString (Event_UID e)) #
        (if Event_ID e = '''' then [] else [(''event.id'', JString (Event_ID e))]))))"

definition marshalLocationIDs :: "Location \<Rightarrow> error + bytes" where
  "marshalLocationIDs l =
     Inr (Wellformed (JObject
       ((''uid'', JString (Location_UID l)) #
        (if Location_ID l = '''' then [] else [(''location.id'', JString (Location_ID l))]))))"

definition marshalFails :: "'r \<Rightarrow> error + bytes" where
  "marshalFails x = Inl (MarshalError ''unsupported value'')"

section \<open>Properties\<close>

subsection \<open>What each operation computes\<close>

text \<open>Each operation, written as one expression over the answer of the store: the
  result and the world it leaves.\<close>

lemma getScrapeWithID_unfold:
  "getScrapeWithID c dec scrape w =
     (case runQuery c (store w) qFindScrape [''$uid'' \<mapsto> Scrape_UID scrape] of
        Inl e \<Rightarrow> Return None (Some e)
      | Inr resp \<Rightarrow>
          (case unmarshalRoot ''findScrape'' dec (Json resp) of
             Inl e \<Rightarrow> Return None (Some e)
           | Inr [] \<Rightarrow> Return None (Some (Errorf (''No Scrape found with id '' @ Scrape_UID scrape)))
           | Inr (x # xs) \<Rightarrow> Return (Some x) None),
      w\<lparr>calls := calls w @ [CallQuery ReadOnlyTxn qFindScrape [''$uid'' \<mapsto> Scrape_UID scrape]]\<rparr>)"
  by (simp add: getScrapeWithID_def QueryWithVars_def NewReadOnlyTxn_def
      split: sum.splits list.splits)

lemma getScrapeWithoutID_unfold:
  "getScrapeWithoutID c dec scrape w =
     (case runQuery c (store w) qFindScrapeNoID [''$id'' \<mapsto> Itoa (Scrape_ID scrape)] of
        Inl e \<Rightarrow> Return None (Some e)
      | Inr resp \<Rightarrow>
          (case unmarshalRoot ''findScrapeNoID'' dec (Json resp) of
             Inl e \<Rightarrow> Return None (Some e)
           | Inr [] \<Rightarrow> Return None None
           | Inr (x # xs) \<Rightarrow> Return (Some x) None),
      w\<lparr>calls := calls w @ [CallQuery ReadOnlyTxn qFindScrapeNoID [''$id'' \<mapsto> Itoa (Scrape_ID scrape)]]\<rparr>)"
  by (simp add: getScrapeWithoutID_def QueryWithVars_def NewReadOnlyTxn_def
      split: sum.splits list.splits)

lemma getEventWithUID_unfold:
  "getEventWithUID c dec event w =
     (case runQuery c (store w) qFindEvent [''$id'' \<mapsto> Event_UID event] of
        Inl e \<Rightarrow> Return None (Some e)
      | Inr resp \<Rightarrow>
          (case unmarshalRoot ''findEvent'' dec (Json resp) of
             Inl e \<Rightarrow> Return None (Some e)
           | Inr [] \<Rightarrow> Return None (Some (Errorf (''No Event found with uid '' @ Event_UID event)))
           | Inr (x # xs) \<Rightarrow> Return (Some x) None),
      w\<lparr>calls := calls w @ [CallQuery ReadOnlyTxn qFindEvent [''$id'' \<mapsto> Event_UID event]]\<rparr>)"
  by (simp add: getEventWithUID_def QueryWithVars_def NewReadOnlyTxn_def
      split: sum.splits list.splits)

lemma getEventWithoutUID_unfold:
  "getEventWithoutUID c dec event w =
     (case runQuery c (store w) qFindEventNoUID [''$id'' \<mapsto> Event_ID event] of
        Inl e \<Rightarrow> Return None (Some e)
      | Inr resp \<Rightarrow>
          (case unmarshalRoot ''findEvent'' dec (Json resp) of
             Inl e \<Rightarrow> Return None (Some e)
           | Inr [] \<Rightarrow> Return None None
           | Inr (x # xs) \<Rightarrow> Return (Some x) None),
      w\<lparr>calls := calls w @ [CallQuery ReadOnlyTxn qFindEventNoUID [''$id'' \<mapsto> Event_ID event]]\<rparr>)"
  by (simp add: getEventWithoutUID_def QueryWithVars_def NewReadOnlyTxn_def
      split: sum.splits list.splits)

lemma GetLocationFromKentSlug_unfold:
  "GetLocationFromKentSlug c dec slug w =
     (case runQuery c (store w) qFindLocationFromSlug [''$id'' \<mapsto> slug] of
        Inl e \<Rightarrow> Return None (Some e)
      | Inr resp \<Rightarrow>
          (case unmarshalRoot ''findLocation'' dec (Json resp) of
             Inl e \<Rightarrow> Return None (Some e)
           | Inr [] \<Rightarrow> Return None None
           | Inr (x # xs) \<Rightarrow> Return (Some x) None),
      w\<lparr>calls := calls w @ [CallQuery ReadOnlyTxn qFindLocationFromSlug [''$id'' \<mapsto> slug]]\<rparr>)"
  by (simp add: GetLocationFromKentSlug_def QueryWithVars_def NewReadOnlyTxn_def
      split: sum.splits list.splits)

lemma CountNodesWithField_unfold:
  "CountNodesWithField c f w =
     (case runQuery c (store w) qCount Map.empty of
        Inl e \<Rightarrow> Return None (Some e)
      | Inr resp \<Rightarrow>
          (case unmarshalRoot ''nodeCount'' decodeNodeCount (Json resp) of
             Inl e \<Rightarrow> Return None (Some e)
           | Inr [] \<Rightarrow> Panic (IndexOutOfRange 0 0)
           | Inr (x # xs) \<Rightarrow> Return (Some x) None),
      w\<lparr>calls := calls w @ [CallQuery ReadOnlyTxn qCount Map.empty]\<rparr>)"
  by (simp add: CountNodesWithField_def Query_def QueryWithVars_def NewReadOnlyTxn_def
      split: sum.splits list.splits)

lemma UpsertScrape_unfold:
  "UpsertScrape c marshal scrape w =
     (case marshal scrape of
        Inl e \<Rightarrow> (Return None (Some e), w)
      | Inr pb \<Rightarrow>
          (case fst (runMutate c (store w) \<lparr>SetJson = pb, CommitNow = True\<rparr>) of
             Inl e \<Rightarrow> Return None (Some e)
           | Inr assigned \<Rightarrow> Return (Some assigned) None,
           \<lparr>store = snd (runMutate c (store w) \<lparr>SetJson = pb, CommitNow = True\<rparr>),
            calls = calls w @ [CallMutate ReadWriteTxn \<lparr>SetJson = pb, CommitNow = True\<rparr>]\<rparr>))"
  by (auto simp add: UpsertScrape_def Mutate_def NewTxn_def Let_def split: sum.splits prod.splits)

lemma UpsertEvent_unfold:
  "UpsertEvent c marshal event w =
     (case marshal event of
        Inl e \<Rightarrow> (Return None (Some e), w)
      | Inr pb \<Rightarrow>
          (case fst (runMutate c (store w) \<lparr>SetJson = pb, CommitNow = True\<rparr>) of
             Inl e \<Rightarrow> Return None (Some e)
           | Inr assigned \<Rightarrow> Return (Some assigned) None,
           \<lparr>store = snd (runMutate c (store w) \<lparr>SetJson = pb, CommitNow = True\<rparr>),
            calls = calls w @ [CallMutate ReadWriteTxn \<lparr>SetJson = pb, CommitNow = True\<rparr>]\<rparr>))"
  by (auto simp add: UpsertEvent_def Mutate_def NewTxn_def Let_def split: sum.splits prod.splits)

lemma UpsertLocation_unfold:
  "UpsertLocation c marshal loc w =
     (case marshal loc of
        Inl e \<Rightarrow> (Return None (Some e), w)
      | Inr pb \<Rightarrow>
          (case fst (runMutate c (store w) \<lparr>SetJson = pb, CommitNow = True\<rparr>) of
             Inl e \<Rightarrow> Return None (Some e)
           | Inr assigned \<Rightarrow> Return (Some assigned) None,
           \<lparr>store = snd (runMutate c (store w) \<lparr>SetJson = pb, CommitNow = True\<rparr>),
            calls = calls w @ [CallMutate ReadWriteTxn \<lparr>SetJson = pb, CommitNow = True\<rparr>]\<rparr>))"
  by (auto simp add: UpsertLocation_def Mutate_def NewTxn_def Let_def split: sum.splits prod.splits)

text \<open>Decoding the answers used in the concrete instances below.\<close>

lemma unmarshalRoot_emptyObject:
  "unmarshalRoot key dec (Json emptyObject) = Inr []"
  by (simp add: unmarshalRoot_def emptyObject_def)

lemma unmarshalRoot_envelope_empty:
  "unmarshalRoot key dec (Json (envelope key [])) = Inr []"
  by (simp add: unmarshalRoot_def envelope_def decodeSlice_def equalFold_def)

lemma unmarshalRoot_envelope_one:
  "dec j = Inr x \<Longrightarrow> unmarshalRoot key dec (Json (envelope key [j])) = Inr [x]"
  by (simp add: unmarshalRoot_def envelope_def decodeSlice_def equalFold_def)

lemma unmarshalRoot_envelope_two:
  "dec j = Inr x \<Longrightarrow> dec j' = Inr x' \<Longrightarrow>
     unmarshalRoot key dec (Json (envelope key [j, j'])) = Inr [x, x']"
  by (simp add: unmarshalRoot_def envelope_def decodeSlice_def equalFold_def)

lemma decodeNodeCount_single:
  "- (2 ^ 63) \<le> n \<Longrightarrow> n < 2 ^ 63 \<Longrightarrow>
     decodeNodeCount (JObject [(''nodeCount'', JInt n)]) = Inr n"
  by (simp add: decodeNodeCount_def decodeInt_def equalFold_def)

lemma uidOf_object: "uidOf (JObject [(''uid'', JString u)]) = Inr u"
  by (simp add: uidOf_def)

lemma runQuery_cannedClient: "runQuery (cannedClient qa ma) s q vars = qa"
  by (simp add: cannedClient_def)

lemma runMutate_cannedClient: "runMutate (cannedClient qa ma) s mu = (ma, Suc s)"
  by (simp add: cannedClient_def)

lemma Itoa_zero: "Itoa 0 = ''0''"
  by (simp add: Itoa_def)

lemma decodeScrapeUID_object:
  "decodeScrapeUID (JObject [(''uid'', JString u)]) = Inr (scrapeWithUID u)"
  by (simp add: decodeScrapeUID_def uidOf_object)

lemma decodeEventUID_object:
  "decodeEventUID (JObject [(''uid'', JString u)]) = Inr (eventWithUID u)"
  by (simp add: decodeEventUID_def uidOf_object)

lemma decodeLocationUID_object:
  "decodeLocationUID (JObject [(''uid'', JString u)]) = Inr (locationWithUID u)"
  by (simp add: decodeLocationUID_def uidOf_object)

subsection \<open>The count query\<close>

text \<open>C1, as stated, does not hold: the count returned for the field \<^verbatim>\<open>event.id\<close> is
  not the number of nodes that have that field. On a store of three nodes, two with
  \<^verbatim>\<open>location.id\<close> and one with \<^verbatim>\<open>event.id\<close>, \<^verbatim>\<open>CountNodesWithField(c, "event.id")\<close>
  returns 2, and the calls it logs are those of \<^verbatim>\<open>CountNodesWithField(c, "location.id")\<close>.\<close>

theorem CountNodesWithField_event_id_counterexample:
  "fst (CountNodesWithField nodeStore ''event.id'' (freshWorld threeNodes)) = Return (Some 2) None
   \<and> countHaving ''event.id'' threeNodes = 1
   \<and> calls (snd (CountNodesWithField nodeStore ''event.id'' (freshWorld threeNodes)))
       = calls (snd (CountNodesWithField nodeStore ''location.id'' (freshWorld threeNodes)))"
proof -
  have n: "countHaving ''location.id'' threeNodes = 2"
    by (simp add: countHaving_def threeNodes_def)
  have d: "unmarshalRoot ''nodeCount'' decodeNodeCount
             (Json (envelope ''nodeCount'' [JObject [(''nodeCount'', JInt 2)]])) = Inr [2]"
    by (rule unmarshalRoot_envelope_one) (simp add: decodeNodeCount_single)
  have "fst (CountNodesWithField nodeStore ''event.id'' (freshWorld threeNodes))
          = Return (Some 2) None"
    by (simp add: CountNodesWithField_unfold nodeStore_def freshWorld_def n d)
  moreover have "countHaving ''event.id'' threeNodes = 1"
    by (simp add: countHaving_def threeNodes_def)
  ultimately show ?thesis
    by (simp add: CountNodesWithField_unfold)
qed

text \<open>C1, amended: for every field name \<open>f\<close>, \<^verbatim>\<open>CountNodesWithField(c, f)\<close> does not
  use \<open>f\<close>. It sends the one fixed count query \<open>qCount\<close>, which counts the nodes that
  have the field \<^verbatim>\<open>location.id\<close>, without variables and on a read-only transaction; its
  result and its effect are the same for every two field names.\<close>

theorem CountNodesWithField_fixed_query:
  "CountNodesWithField c f w = CountNodesWithField c g w
   \<and> calls (snd (CountNodesWithField c f w)) = calls w @ [CallQuery ReadOnlyTxn qCount Map.empty]"
  by (simp add: CountNodesWithField_unfold)

text \<open>C2: a well-formed answer without the envelope key, or with an empty aggregate
  list, should come back as a decode error. It does not: the decoder accepts both
  answers and leaves the slice empty, and the function reads \<^verbatim>\<open>r.NodeCount[0]\<close>
  without looking at the length, which panics. The other lookups test
  \<^verbatim>\<open>len(...) == 0\<close> first.\<close>

theorem CountNodesWithField_empty_answer_panics:
  "fst (CountNodesWithField (cannedClient (Inr emptyObject) (Inl ErrAborted))
          ''location.id'' (freshWorld 0)) = Panic (IndexOutOfRange 0 0)
   \<and> fst (CountNodesWithField (cannedClient (Inr (envelope ''nodeCount'' [])) (Inl ErrAborted))
          ''location.id'' (freshWorld 0)) = Panic (IndexOutOfRange 0 0)"
  by (simp add: CountNodesWithField_unfold runQuery_cannedClient
      unmarshalRoot_emptyObject unmarshalRoot_envelope_empty)

subsection \<open>Lookups\<close>

text \<open>C5: when the internal reference id is set, \<^verbatim>\<open>GetScrape\<close> and \<^verbatim>\<open>GetEvent\<close> take
  the lookup by internal id, whatever the external id is: the one query sent is the
  \<^verbatim>\<open>uid\<close> query with the internal id as its only variable, and changing the external
  id of the record changes neither the result nor the calls.\<close>

theorem Resolve_internal_id_takes_priority:
  "(Scrape_UID scrape \<noteq> '''' \<longrightarrow>
      GetScrape c decS scrape w = getScrapeWithID c decS scrape w
      \<and> calls (snd (GetScrape c decS scrape w))
          = calls w @ [CallQuery ReadOnlyTxn qFindScrape [''$uid'' \<mapsto> Scrape_UID scrape]]
      \<and> GetScrape c decS (scrape\<lparr>Scrape_ID := i\<rparr>) w = GetScrape c decS scrape w)
   \<and> (Event_UID event \<noteq> '''' \<longrightarrow>
      GetEvent c decE event w = getEventWithUID c decE event w
      \<and> calls (snd (GetEvent c decE event w))
          = calls w @ [CallQuery ReadOnlyTxn qFindEvent [''$id'' \<mapsto> Event_UID event]]
      \<and> GetEvent c decE (event\<lparr>Event_ID := j\<rparr>) w = GetEvent c decE event w)"
  by (simp add: GetScrape_def GetEvent_def getScrapeWithID_unfold getEventWithUID_unfold
      split: sum.splits list.splits)

text \<open>An instance of C5: a scrape and an event with both ids set.\<close>

theorem Resolve_internal_id_takes_priority_witness:
  "calls (snd (GetScrape (cannedClient (Inr emptyObject) (Inl ErrAborted)) decodeScrapeUID
       (scrapeWithUID ''0x2a'' \<lparr>Scrape_ID := 17\<rparr>) (freshWorld 0)))
     = [CallQuery ReadOnlyTxn qFindScrape [''$uid'' \<mapsto> ''0x2a'']]
   \<and> GetScrape (cannedClient (Inr emptyObject) (Inl ErrAborted)) decodeScrapeUID
       (scrapeWithUID ''0x2a'' \<lparr>Scrape_ID := 17\<rparr>) (freshWorld 0)
     = GetScrape (cannedClient (Inr emptyObject) (Inl ErrAborted)) decodeScrapeUID
       (scrapeWithUID ''0x2a'' \<lparr>Scrape_ID := 99\<rparr>) (freshWorld 0)
   \<and> calls (snd (GetEvent (cannedClient (Inr emptyObject) (Inl ErrAborted)) decodeEventUID
       (eventWithUID ''0x2b'' \<lparr>Event_ID := ''CO520-lec-1''\<rparr>) (freshWorld 0)))
     = [CallQuery ReadOnlyTxn qFindEvent [''$id'' \<mapsto> ''0x2b'']]
   \<and> GetEvent (cannedClient (Inr emptyObject) (Inl ErrAborted)) decodeEventUID
       (eventWithUID ''0x2b'' \<lparr>Event_ID := ''CO520-lec-1''\<rparr>) (freshWorld 0)
     = GetEvent (cannedClient (Inr emptyObject) (Inl ErrAborted)) decodeEventUID
       (eventWithUID ''0x2b'' \<lparr>Event_ID := ''CO881-sem-4''\<rparr>) (freshWorld 0)"
proof -
  let ?c = "cannedClient (Inr emptyObject) (Inl ErrAborted)"
  let ?s = "scrapeWithUID ''0x2a'' \<lparr>Scrape_ID := 17\<rparr>"
  let ?e = "eventWithUID ''0x2b'' \<lparr>Event_ID := ''CO520-lec-1''\<rparr>"
  note inst = Resolve_internal_id_takes_priority [where scrape = ?s and event = ?e
      and i = 99 and j = "''CO881-sem-4''" and c = ?c and w = "freshWorld 0"
      and decS = decodeScrapeUID and decE = decodeEventUID]
  have s: "Scrape_UID ?s \<noteq> ''''" and e: "Event_UID ?e \<noteq> ''''"
    by (simp_all add: scrapeWithUID_def eventWithUID_def)
  note scrape_part = inst [THEN conjunct1, THEN mp, OF s, THEN conjunct2]
  note event_part = inst [THEN conjunct2, THEN mp, OF e, THEN conjunct2]
  show ?thesis
    using scrape_part event_part
    by (simp add: scrapeWithUID_def eventWithUID_def freshWorld_def)
qed

text \<open>C3: when the internal id is set, the query succeeds and the answer decodes to
  no record, \<^verbatim>\<open>GetScrape\<close> and \<^verbatim>\<open>GetEvent\<close> return no record and an error whose
  message ends with the id that was searched.\<close>

theorem Resolve_by_internal_id_not_found:
  "(Scrape_UID scrape \<noteq> '''' \<longrightarrow>
      runQuery c (store w) qFindScrape [''$uid'' \<mapsto> Scrape_UID scrape] = Inr resp \<longrightarrow>
      unmarshalRoot ''findScrape'' decS (Json resp) = Inr [] \<longrightarrow>
      fst (GetScrape c decS scrape w)
        = Return None (Some (Errorf (''No Scrape found with id '' @ Scrape_UID scrape))))
   \<and> (Event_UID event \<noteq> '''' \<longrightarrow>
      runQuery c (store w) qFindEvent [''$id'' \<mapsto> Event_UID event] = Inr resp' \<longrightarrow>
      unmarshalRoot ''findEvent'' decE (Json resp') = Inr [] \<longrightarrow>
      fst (GetEvent c decE event w)
        = Return None (Some (Errorf (''No Event found with uid '' @ Event_UID event))))"
  by (simp add: GetScrape_def GetEvent_def getScrapeWithID_unfold getEventWithUID_unfold)

text \<open>An instance of C3: an envelope with an empty list, and an answer without the
  envelope key.\<close>

theorem Resolve_by_internal_id_not_found_witness:
  "fst (GetScrape (cannedClient (Inr (envelope ''findScrape'' [])) (Inl ErrAborted))
          decodeScrapeUID (scrapeWithUID ''0x2a'') (freshWorld 0))
     = Return None (Some (Errorf ''No Scrape found with id 0x2a''))
   \<and> fst (GetEvent (cannedClient (Inr emptyObject) (Inl ErrAborted))
          decodeEventUID (eventWithUID ''0x2b'') (freshWorld 0))
     = Return None (Some (Errorf ''No Event found with uid 0x2b''))"
  using
    Resolve_by_internal_id_not_found [where scrape = "scrapeWithUID ''0x2a''"
      and c = "cannedClient (Inr (envelope ''findScrape'' [])) (Inl ErrAborted)"
      and w = "freshWorld 0" and resp = "envelope ''findScrape'' []" and decS = decodeScrapeUID
      and event = "eventWithUID ''''"]
    Resolve_by_internal_id_not_found [where event = "eventWithUID ''0x2b''"
      and c = "cannedClient (Inr emptyObject) (Inl ErrAborted)"
      and w = "freshWorld 0" and resp' = emptyObject and decE = decodeEventUID
      and scrape = "scrapeWithUID ''''"]
  by (simp add: scrapeWithUID_def eventWithUID_def runQuery_cannedClient
      unmarshalRoot_envelope_empty unmarshalRoot_emptyObject)

text \<open>C4: a lookup by external id (\<^verbatim>\<open>GetScrape\<close> and \<^verbatim>\<open>GetEvent\<close> with an empty
  internal id, \<^verbatim>\<open>GetLocationFromKentSlug\<close>) whose query succeeds and whose answer
  decodes to no record returns no record and no error.\<close>

theorem Resolve_by_external_id_absent:
  "(Scrape_UID scrape = '''' \<longrightarrow>
      runQuery c (store w) qFindScrapeNoID [''$id'' \<mapsto> Itoa (Scrape_ID scrape)] = Inr resp \<longrightarrow>
      unmarshalRoot ''findScrapeNoID'' decS (Json resp) = Inr [] \<longrightarrow>
      fst (GetScrape c decS scrape w) = Return None None)
   \<and> (Event_UID event = '''' \<longrightarrow>
      runQuery c (store w) qFindEventNoUID [''$id'' \<mapsto> Event_ID event] = Inr resp' \<longrightarrow>
      unmarshalRoot ''findEvent'' decE (Json resp') = Inr [] \<longrightarrow>
      fst (GetEvent c decE event w) = Return None None)
   \<and> (runQuery c (store w) qFindLocationFromSlug [''$id'' \<mapsto> slug] = Inr resp'' \<longrightarrow>
      unmarshalRoot ''findLocation'' decL (Json resp'') = Inr [] \<longrightarrow>
      fst (GetLocationFromKentSlug c decL slug w) = Return None None)"
  by (simp add: GetScrape_def GetEvent_def getScrapeWithoutID_unfold getEventWithoutUID_unfold
      GetLocationFromKentSlug_unfold)

text \<open>An instance of C4, on an answer without the envelope key.\<close>

theorem Resolve_by_external_id_absent_witness:
  "fst (GetScrape (cannedClient (Inr emptyObject) (Inl ErrAborted))
          decodeScrapeUID (scrapeWithUID '''' \<lparr>Scrape_ID := 17\<rparr>) (freshWorld 0))
     = Return None None
   \<and> fst (GetEvent (cannedClient (Inr emptyObject) (Inl ErrAborted))
          decodeEventUID (eventWithUID '''' \<lparr>Event_ID := ''CO520-lec-1''\<rparr>) (freshWorld 0))
     = Return None None
   \<and> fst (GetLocationFromKentSlug (cannedClient (Inr emptyObject) (Inl ErrAborted))
          decodeLocationUID ''sibson-lt1'' (freshWorld 0))
     = Return None None"
  using
    Resolve_by_external_id_absent [where scrape = "scrapeWithUID '''' \<lparr>Scrape_ID := 17\<rparr>"
      and event = "eventWithUID '''' \<lparr>Event_ID := ''CO520-lec-1''\<rparr>"
      and slug = "''sibson-lt1''"
      and c = "cannedClient (Inr emptyObject) (Inl ErrAborted)"
      and w = "freshWorld 0" and resp = emptyObject and resp' = emptyObject
      and resp'' = emptyObject and decS = decodeScrapeUID and decE = decodeEventUID
      and decL = decodeLocationUID]
  by (simp add: scrapeWithUID_def eventWithUID_def runQuery_cannedClient
      unmarshalRoot_emptyObject)

text \<open>C6: a lookup whose query succeeds and whose answer decodes to a non-empty list
  returns the first record of that list and no error.\<close>

theorem Resolve_returns_first_record:
  "(runQuery c (store w) qFindScrape [''$uid'' \<mapsto> Scrape_UID scrape] = Inr respA \<longrightarrow>
      unmarshalRoot ''findScrape'' decS (Json respA) = Inr (firstA # restA) \<longrightarrow>
      fst (getScrapeWithID c decS scrape w) = Return (Some firstA) None)
   \<and> (runQuery c (store w) qFindScrapeNoID [''$id'' \<mapsto> Itoa (Scrape_ID scrape)] = Inr respB \<longrightarrow>
      unmarshalRoot ''findScrapeNoID'' decS (Json respB) = Inr (firstB # restB) \<longrightarrow>
      fst (getScrapeWithoutID c decS scrape w) = Return (Some firstB) None)
   \<and> (runQuery c (store w) qFindEvent [''$id'' \<mapsto> Event_UID event] = Inr respC \<longrightarrow>
      unmarshalRoot ''findEvent'' decE (Json respC) = Inr (firstC # restC) \<longrightarrow>
      fst (getEventWithUID c decE event w) = Return (Some firstC) None)
   \<and> (runQuery c (store w) qFindEventNoUID [''$id'' \<mapsto> Event_ID event] = Inr respD \<longrightarrow>
      unmarshalRoot ''findEvent'' decE (Json respD) = Inr (firstD # restD) \<longrightarrow>
      fst (getEventWithoutUID c decE event w) = Return (Some firstD) None)
   \<and> (runQuery c (store w) qFindLocationFromSlug [''$id'' \<mapsto> slug] = Inr respE \<longrightarrow>
      unmarshalRoot ''findLocation'' decL (Json respE) = Inr (firstE # restE) \<longrightarrow>
      fst (GetLocationFromKentSlug c decL slug w) = Return (Some firstE) None)"
  by (simp add: getScrapeWithID_unfold getScrapeWithoutID_unfold getEventWithUID_unfold
      getEventWithoutUID_unfold GetLocationFromKentSlug_unfold)

text \<open>An instance of C6: an envelope with two records; each lookup returns the first.\<close>

theorem Resolve_returns_first_record_witness:
  "fst (getScrapeWithID (cannedClient (Inr (twoRecords ''findScrape'')) (Inl ErrAborted))
          decodeScrapeUID (scrapeWithUID ''0x2a'') (freshWorld 0))
     = Return (Some (scrapeWithUID ''0x2a'')) None
   \<and> fst (getScrapeWithoutID (cannedClient (Inr (twoRecords ''findScrapeNoID'')) (Inl ErrAborted))
          decodeScrapeUID (scrapeWithUID '''') (freshWorld 0))
     = Return (Some (scrapeWithUID ''0x2a'')) None
   \<and> fst (getEventWithUID (cannedClient (Inr (twoRecords ''findEvent'')) (Inl ErrAborted))
          decodeEventUID (eventWithUID ''0x2a'') (freshWorld 0))
     = Return (Some (eventWithUID ''0x2a'')) None
   \<and> fst (getEventWithoutUID (cannedClient (Inr (twoRecords ''findEvent'')) (Inl ErrAborted))
          decodeEventUID (eventWithUID '''') (freshWorld 0))
     = Return (Some (eventWithUID ''0x2a'')) None
   \<and> fst (GetLocationFromKentSlug (cannedClient (Inr (twoRecords ''findLocation'')) (Inl ErrAborted))
          decodeLocationUID ''sibson-lt1'' (freshWorld 0))
     = Return (Some (locationWithUID ''0x2a'')) None"
proof -
  have d:
    "unmarshalRoot key decodeScrapeUID (Json (twoRecords key))
       = Inr [scrapeWithUID ''0x2a'', scrapeWithUID ''0x2b'']"
    "unmarshalRoot key decodeEventUID (Json (twoRecords key))
       = Inr [eventWithUID ''0x2a'', eventWithUID ''0x2b'']"
    "unmarshalRoot key decodeLocationUID (Json (twoRecords key))
       = Inr [locationWithUID ''0x2a'', locationWithUID ''0x2b'']"
    for key
    unfolding twoRecords_def
    by (rule unmarshalRoot_envelope_two, rule decodeScrapeUID_object, rule decodeScrapeUID_object)
       (rule unmarshalRoot_envelope_two, rule decodeEventUID_object, rule decodeEventUID_object,
        rule unmarshalRoot_envelope_two, rule decodeLocationUID_object,
        rule decodeLocationUID_object)
  show ?thesis
    using
      Resolve_returns_first_record [where c = "cannedClient (Inr (twoRecords ''findScrape'')) (Inl ErrAborted)"
        and w = "freshWorld 0" and scrape = "scrapeWithUID ''0x2a''" and decS = decodeScrapeUID
        and respA = "twoRecords ''findScrape''" and firstA = "scrapeWithUID ''0x2a''"
        and restA = "[scrapeWithUID ''0x2b'']", THEN conjunct1]
      Resolve_returns_first_record [where c = "cannedClient (Inr (twoRecords ''findScrapeNoID'')) (Inl ErrAborted)"
        and w = "freshWorld 0" and scrape = "scrapeWithUID ''''" and decS = decodeScrapeUID
        and respB = "twoRecords ''findScrapeNoID''" and firstB = "scrapeWithUID ''0x2a''"
        and restB = "[scrapeWithUID ''0x2b'']", THEN conjunct2, THEN conjunct1]
      Resolve_returns_first_record [where c = "cannedClient (Inr (twoRecords ''findEvent'')) (Inl ErrAborted)"
        and w = "freshWorld 0" and event = "eventWithUID ''0x2a''" and decE = decodeEventUID
        and respC = "twoRecords ''findEvent''" and firstC = "eventWithUID ''0x2a''"
        and restC = "[eventWithUID ''0x2b'']", THEN conjunct2, THEN conjunct2, THEN conjunct1]
      Resolve_returns_first_record [where c = "cannedClient (Inr (twoRecords ''findEvent'')) (Inl ErrAborted)"
        and w = "freshWorld 0" and event = "eventWithUID ''''" and decE = decodeEventUID
        and respD = "twoRecords ''findEvent''" and firstD = "eventWithUID ''0x2a''"
        and restD = "[eventWithUID ''0x2b'']",
        THEN conjunct2, THEN conjunct2, THEN conjunct2, THEN conjunct1]
      Resolve_returns_first_record [where c = "cannedClient (Inr (twoRecords ''findLocation'')) (Inl ErrAborted)"
        and w = "freshWorld 0" and slug = "''sibson-lt1''" and decL = decodeLocationUID
        and respE = "twoRecords ''findLocation''" and firstE = "locationWithUID ''0x2a''"
        and restE = "[locationWithUID ''0x2b'']",
        THEN conjunct2, THEN conjunct2, THEN conjunct2, THEN conjunct2]
    by (simp add: runQuery_cannedClient d)
qed

text \<open>C10: a record with neither id set is not rejected. \<^verbatim>\<open>GetScrape\<close> takes the
  lookup by external id and sends the query for the id \<^verbatim>\<open>"0"\<close>, the decimal text of
  the number 0; \<^verbatim>\<open>GetEvent\<close> takes the lookup by external id and sends the query for
  the empty string.\<close>

theorem Resolve_without_ids_probes_zero_key:
  "(Scrape_UID scrape = '''' \<longrightarrow> Scrape_ID scrape = 0 \<longrightarrow>
      GetScrape c decS scrape w = getScrapeWithoutID c decS scrape w
      \<and> calls (snd (GetScrape c decS scrape w))
          = calls w @ [CallQuery ReadOnlyTxn qFindScrapeNoID [''$id'' \<mapsto> ''0'']])
   \<and> (Event_UID event = '''' \<longrightarrow> Event_ID event = '''' \<longrightarrow>
      GetEvent c decE event w = getEventWithoutUID c decE event w
      \<and> calls (snd (GetEvent c decE event w))
          = calls w @ [CallQuery ReadOnlyTxn qFindEventNoUID [''$id'' \<mapsto> '''']])"
  by (simp add: GetScrape_def GetEvent_def getScrapeWithoutID_unfold getEventWithoutUID_unfold
      Itoa_zero)

text \<open>An instance of C10: the scrape and the event with all fields at their zero
  values.\<close>

theorem Resolve_without_ids_probes_zero_key_witness:
  "calls (snd (GetScrape (cannedClient (Inr emptyObject) (Inl ErrAborted)) decodeScrapeUID
       (scrapeWithUID '''') (freshWorld 0)))
     = [CallQuery ReadOnlyTxn qFindScrapeNoID [''$id'' \<mapsto> ''0'']]
   \<and> calls (snd (GetEvent (cannedClient (Inr emptyObject) (Inl ErrAborted)) decodeEventUID
       (eventWithUID '''') (freshWorld 0)))
     = [CallQuery ReadOnlyTxn qFindEventNoUID [''$id'' \<mapsto> '''']]"
proof -
  let ?c = "cannedClient (Inr emptyObject) (Inl ErrAborted)"
  note inst = Resolve_without_ids_probes_zero_key [where scrape = "scrapeWithUID ''''"
      and event = "eventWithUID ''''" and c = ?c and w = "freshWorld 0"
      and decS = decodeScrapeUID and decE = decodeEventUID]
  have s: "Scrape_UID (scrapeWithUID '''') = ''''" "Scrape_ID (scrapeWithUID '''') = 0"
    and e: "Event_UID (eventWithUID '''') = ''''" "Event_ID (eventWithUID '''') = ''''"
    by (simp_all add: scrapeWithUID_def eventWithUID_def)
  note scrape_part = inst [THEN conjunct1, THEN mp, THEN mp, OF s, THEN conjunct2]
  note event_part = inst [THEN conjunct2, THEN mp, THEN mp, OF e, THEN conjunct2]
  show ?thesis
    using scrape_part event_part by (simp add: freshWorld_def)
qed

text \<open>C8: a lookup (\<^verbatim>\<open>GetScrape\<close>, \<^verbatim>\<open>GetEvent\<close>, \<^verbatim>\<open>GetLocationFromKentSlug\<close>,
  \<^verbatim>\<open>CountNodesWithField\<close>) leaves the state of the store as it was, and the only
  call it makes is one query on a read-only transaction.\<close>

theorem lookups_read_only:
  "store (snd (GetScrape c decS scrape w)) = store w
   \<and> (\<exists>q vars. calls (snd (GetScrape c decS scrape w)) = calls w @ [CallQuery ReadOnlyTxn q vars])
   \<and> store (snd (GetEvent c decE event w)) = store w
   \<and> (\<exists>q vars. calls (snd (GetEvent c decE event w)) = calls w @ [CallQuery ReadOnlyTxn q vars])
   \<and> store (snd (GetLocationFromKentSlug c decL slug w)) = store w
   \<and> (\<exists>q vars. calls (snd (GetLocationFromKentSlug c decL slug w))
         = calls w @ [CallQuery ReadOnlyTxn q vars])
   \<and> store (snd (CountNodesWithField c f w)) = store w
   \<and> (\<exists>q vars. calls (snd (CountNodesWithField c f w)) = calls w @ [CallQuery ReadOnlyTxn q vars])"
  by (simp add: GetScrape_def GetEvent_def getScrapeWithID_unfold getScrapeWithoutID_unfold
      getEventWithUID_unfold getEventWithoutUID_unfold GetLocationFromKentSlug_unfold
      CountNodesWithField_unfold)

subsection \<open>Upserts\<close>

text \<open>C7: an upsert whose record cannot be serialised returns that error and makes no
  call to the store. Otherwise it makes exactly one call, a mutation on a read-write
  transaction whose payload is the serialised record and whose \<^verbatim>\<open>CommitNow\<close> is set;
  the store is left as that one mutation leaves it; an error of the mutation (an abort
  included) is returned as it is, and without an error the answer of the store is
  returned.\<close>

theorem Upsert_one_mutation_errors_unchanged:
  "(marshalS scrape = Inl e \<longrightarrow> UpsertScrape c marshalS scrape w = (Return None (Some e), w))
   \<and> (marshalS scrape = Inr pb \<longrightarrow>
      calls (snd (UpsertScrape c marshalS scrape w)) = calls w @ [CallMutate ReadWriteTxn \<lparr>SetJson = pb, CommitNow = True\<rparr>]
      \<and> store (snd (UpsertScrape c marshalS scrape w)) = snd (runMutate c (store w) \<lparr>SetJson = pb, CommitNow = True\<rparr>)
      \<and> (fst (runMutate c (store w) \<lparr>SetJson = pb, CommitNow = True\<rparr>) = Inl e' \<longrightarrow>
           fst (UpsertScrape c marshalS scrape w) = Return None (Some e'))
      \<and> (fst (runMutate c (store w) \<lparr>SetJson = pb, CommitNow = True\<rparr>) = Inr assigned \<longrightarrow>
           fst (UpsertScrape c marshalS scrape w) = Return (Some assigned) None))
   \<and> (marshalE event = Inl e \<longrightarrow> UpsertEvent c marshalE event w = (Return None (Some e), w))
   \<and> (marshalE event = Inr pb \<longrightarrow>
      calls (snd (UpsertEvent c marshalE event w)) = calls w @ [CallMutate ReadWriteTxn \<lparr>SetJson = pb, CommitNow = True\<rparr>]
      \<and> store (snd (UpsertEvent c marshalE event w)) = snd (runMutate c (store w) \<lparr>SetJson = pb, CommitNow = True\<rparr>)
      \<and> (fst (runMutate c (store w) \<lparr>SetJson = pb, CommitNow = True\<rparr>) = Inl e' \<longrightarrow>
           fst (UpsertEvent c marshalE event w) = Return None (Some e'))
      \<and> (fst (runMutate c (store w) \<lparr>SetJson = pb, CommitNow = True\<rparr>) = Inr assigned \<longrightarrow>
           fst (UpsertEvent c marshalE event w) = Return (Some assigned) None))
   \<and> (marshalL loc = Inl e \<longrightarrow> UpsertLocation c marshalL loc w = (Return None (Some e), w))
   \<and> (marshalL loc = Inr pb \<longrightarrow>
      calls (snd (UpsertLocation c marshalL loc w)) = calls w @ [CallMutate ReadWriteTxn \<lparr>SetJson = pb, CommitNow = True\<rparr>]
      \<and> store (snd (UpsertLocation c marshalL loc w)) = snd (runMutate c (store w) \<lparr>SetJson = pb, CommitNow = True\<rparr>)
      \<and> (fst (runMutate c (store w) \<lparr>SetJson = pb, CommitNow = True\<rparr>) = Inl e' \<longrightarrow>
           fst (UpsertLocation c marshalL loc w) = Return None (Some e'))
      \<and> (fst (runMutate c (store w) \<lparr>SetJson = pb, CommitNow = True\<rparr>) = Inr assigned \<longrightarrow>
           fst (UpsertLocation c marshalL loc w) = Return (Some assigned) None))"
  by (simp add: UpsertScrape_unfold UpsertEvent_unfold UpsertLocation_unfold)

text \<open>Instances of C7 for the three upserts: an encoder that fails, a store that aborts
  the transaction, and a store that accepts the mutation.\<close>

theorem Upsert_one_mutation_errors_unchanged_witness:
  "UpsertScrape (cannedClient (Inr emptyObject) (Inr assignedOne)) marshalFails (scrapeWithUID ''0x2a'') (freshWorld 0)
       = (Return None (Some (MarshalError ''unsupported value'')), freshWorld 0)
   \<and> UpsertEvent (cannedClient (Inr emptyObject) (Inr assignedOne)) marshalFails (eventWithUID ''0x2a'') (freshWorld 0)
       = (Return None (Some (MarshalError ''unsupported value'')), freshWorld 0)
   \<and> UpsertLocation (cannedClient (Inr emptyObject) (Inr assignedOne)) marshalFails (locationWithUID ''0x2a'') (freshWorld 0)
       = (Return None (Some (MarshalError ''unsupported value'')), freshWorld 0)
   \<and> fst (UpsertScrape (cannedClient (Inr emptyObject) (Inl ErrAborted)) marshalScrapeIDs (scrapeWithUID ''0x2a'') (freshWorld 0))
       = Return None (Some ErrAborted)
   \<and> calls (snd (UpsertScrape (cannedClient (Inr emptyObject) (Inl ErrAborted)) marshalScrapeIDs (scrapeWithUID ''0x2a'') (freshWorld 0)))
       = [CallMutate ReadWriteTxn \<lparr>SetJson = Wellformed (JObject [(''uid'', JString ''0x2a'')]), CommitNow = True\<rparr>]
   \<and> fst (UpsertEvent (cannedClient (Inr emptyObject) (Inl ErrAborted)) marshalEventIDs (eventWithUID ''0x2a'') (freshWorld 0))
       = Return None (Some ErrAborted)
   \<and> calls (snd (UpsertEvent (cannedClient (Inr emptyObject) (Inl ErrAborted)) marshalEventIDs (eventWithUID ''0x2a'') (freshWorld 0)))
       = [CallMutate ReadWriteTxn \<lparr>SetJson = Wellformed (JObject [(''uid'', JString ''0x2a'')]), CommitNow = True\<rparr>]
   \<and> fst (UpsertLocation (cannedClient (Inr emptyObject) (Inl ErrAborted)) marshalLocationIDs (locationWithUID ''0x2a'') (freshWorld 0))
       = Return None (Some ErrAborted)
   \<and> calls (snd (UpsertLocation (cannedClient (Inr emptyObject) (Inl ErrAborted)) marshalLocationIDs (locationWithUID ''0x2a'') (freshWorld 0)))
       = [CallMutate ReadWriteTxn \<lparr>SetJson = Wellformed (JObject [(''uid'', JString ''0x2a'')]), CommitNow = True\<rparr>]
   \<and> fst (UpsertScrape (cannedClient (Inr emptyObject) (Inr assignedOne)) marshalScrapeIDs (scrapeWithUID ''0x2a'') (freshWorld 0))
       = Return (Some assignedOne) None
   \<and> store (snd (UpsertScrape (cannedClient (Inr emptyObject) (Inr assignedOne)) marshalScrapeIDs (scrapeWithUID ''0x2a'') (freshWorld 0)))
       = 1
   \<and> fst (UpsertEvent (cannedClient (Inr emptyObject) (Inr assignedOne)) marshalEventIDs (eventWithUID ''0x2a'') (freshWorld 0))
       = Return (Some assignedOne) None
   \<and> store (snd (UpsertEvent (cannedClient (Inr emptyObject) (Inr assignedOne)) marshalEventIDs (eventWithUID ''0x2a'') (freshWorld 0)))
       = 1
   \<and> fst (UpsertLocation (cannedClient (Inr emptyObject) (Inr assignedOne)) marshalLocationIDs (locationWithUID ''0x2a'') (freshWorld 0))
       = Return (Some assignedOne) None
   \<and> store (snd (UpsertLocation (cannedClient (Inr emptyObject) (Inr assignedOne)) marshalLocationIDs (locationWithUID ''0x2a'') (freshWorld 0)))
       = 1"
proof -
  have enc:
    "marshalScrapeIDs (scrapeWithUID ''0x2a'') = Inr (Wellformed (JObject [(''uid'', JString ''0x2a'')]))"
    "marshalEventIDs (eventWithUID ''0x2a'') = Inr (Wellformed (JObject [(''uid'', JString ''0x2a'')]))"
    "marshalLocationIDs (locationWithUID ''0x2a'') = Inr (Wellformed (JObject [(''uid'', JString ''0x2a'')]))"
    by (simp_all add: marshalScrapeIDs_def marshalEventIDs_def marshalLocationIDs_def
        scrapeWithUID_def eventWithUID_def locationWithUID_def)
  show ?thesis
    using
    Upsert_one_mutation_errors_unchanged [where c = "cannedClient (Inr emptyObject) (Inr assignedOne)" and w = "freshWorld 0"
      and scrape = "scrapeWithUID ''0x2a''" and event = "eventWithUID ''0x2a''"
      and loc = "locationWithUID ''0x2a''"
      and marshalS = marshalFails and marshalE = marshalFails and marshalL = marshalFails
      and e = "MarshalError ''unsupported value''"]
    Upsert_one_mutation_errors_unchanged [where c = "cannedClient (Inr emptyObject) (Inl ErrAborted)" and w = "freshWorld 0"
      and scrape = "scrapeWithUID ''0x2a''" and event = "eventWithUID ''0x2a''"
      and loc = "locationWithUID ''0x2a''"
      and marshalS = marshalScrapeIDs and marshalE = marshalEventIDs and marshalL = marshalLocationIDs
      and pb = "Wellformed (JObject [(''uid'', JString ''0x2a'')])" and e' = ErrAborted]
    Upsert_one_mutation_errors_unchanged [where c = "cannedClient (Inr emptyObject) (Inr assignedOne)" and w = "freshWorld 0"
      and scrape = "scrapeWithUID ''0x2a''" and event = "eventWithUID ''0x2a''"
      and loc = "locationWithUID ''0x2a''"
      and marshalS = marshalScrapeIDs and marshalE = marshalEventIDs and marshalL = marshalLocationIDs
      and pb = "Wellformed (JObject [(''uid'', JString ''0x2a'')])" and assigned = assignedOne]
    by (simp add: enc marshalFails_def runMutate_cannedClient freshWorld_def)
qed

text \<open>C9: \<^verbatim>\<open>UpsertEvent\<close> behaves as \<^verbatim>\<open>UpsertScrape\<close> and \<^verbatim>\<open>UpsertLocation\<close> do:
  whenever the serialisation of the event has the same outcome as that of the scrape
  (of the location), the two upserts return the same result and leave the same world.
  The comparison with \<^verbatim>\<open>y.ErrAborted\<close> changes nothing.\<close>

theorem UpsertEvent_equals_other_upserts:
  "(marshalE event = marshalS scrape \<longrightarrow>
      UpsertEvent c marshalE event w = UpsertScrape c marshalS scrape w)
   \<and> (marshalE event = marshalL loc \<longrightarrow>
      UpsertEvent c marshalE event w = UpsertLocation c marshalL loc w)"
  by (simp add: UpsertScrape_unfold UpsertEvent_unfold UpsertLocation_unfold)

text \<open>An instance of C9 on a store that aborts the transaction, the case in which the
  comparison with \<^verbatim>\<open>y.ErrAborted\<close> holds.\<close>

theorem UpsertEvent_equals_other_upserts_witness:
  "UpsertEvent (cannedClient (Inr emptyObject) (Inl ErrAborted)) marshalEventIDs
       (eventWithUID ''0x2a'') (freshWorld 0)
     = UpsertScrape (cannedClient (Inr emptyObject) (Inl ErrAborted)) marshalScrapeIDs
       (scrapeWithUID ''0x2a'') (freshWorld 0)
   \<and> UpsertEvent (cannedClient (Inr emptyObject) (Inl ErrAborted)) marshalEventIDs
       (eventWithUID ''0x2a'') (freshWorld 0)
     = UpsertLocation (cannedClient (Inr emptyObject) (Inl ErrAborted)) marshalLocationIDs
       (locationWithUID ''0x2a'') (freshWorld 0)"
proof -
  have enc:
    "marshalEventIDs (eventWithUID ''0x2a'') = marshalScrapeIDs (scrapeWithUID ''0x2a'')"
    "marshalEventIDs (eventWithUID ''0x2a'') = marshalLocationIDs (locationWithUID ''0x2a'')"
    by (simp_all add: marshalScrapeIDs_def marshalEventIDs_def marshalLocationIDs_def
        scrapeWithUID_def eventWithUID_def locationWithUID_def)
  note inst = UpsertEvent_equals_other_upserts [where c = "cannedClient (Inr emptyObject) (Inl ErrAborted)"
      and w = "freshWorld 0" and event = "eventWithUID ''0x2a''"
      and scrape = "scrapeWithUID ''0x2a''" and loc = "locationWithUID ''0x2a''"
      and marshalE = marshalEventIDs and marshalS = marshalScrapeIDs
      and marshalL = marshalLocationIDs]
  show ?thesis
    using inst [THEN conjunct1, THEN mp, OF enc(1)] inst [THEN conjunct2, THEN mp, OF enc(2)]
    by (rule conjI)
qed

end
